theory Spec2Isabelle
  imports Complex_Main "HOL-Library.Word"
begin

section \<open>Shared data model\<close>

text \<open>
  Raw driver blocks are signed 16-bit mono samples (\<open>dtype='int16'\<close>, \<open>channels=1\<close>);
  processed audio is a float32 array, here the list of the real numbers its elements
  denote. Floating-point arithmetic on such values is not recomputed in the model: where
  the code's control flow depends on a rounded result (the RMS of a chunk, the product
  of a time and the sample rate), the operation is a parameter standing for what numpy
  or Python computes. A NaN (the mean of an empty array) is \<open>None\<close>, and every
  comparison with it is false.
\<close>

type_synonym sample = "16 word"
type_synonym audio = "real list"

datatype source = MIC | LOOPBACK

datatype exn = PortAudioError | TypeError | AttributeError | OutOfMemoryError | RuntimeError

definition WHISPER_SAMPLE_RATE :: int where
  "WHISPER_SAMPLE_RATE = 16000"

definition CHUNK_SECONDS :: real where
  "CHUNK_SECONDS = 15.0"

definition MIX_SAMPLE_RATE :: int where
  "MIX_SAMPLE_RATE = 48000"

text \<open>Python's \<open>int(x)\<close> on a float truncates towards zero.\<close>

definition py_int :: "real \<Rightarrow> int" where
  "py_int x = (if 0 \<le> x then \<lfloor>x\<rfloor> else \<lceil>x\<rceil>)"

text \<open>Python slicing \<open>a[lo:hi]\<close>: a negative bound counts from the end, and both
  bounds are clamped to the array.\<close>

definition slice_index :: "nat \<Rightarrow> int \<Rightarrow> nat" where
  "slice_index n i = (if i < 0 then nat (int n + i) else min n (nat i))"

definition py_slice :: "int \<Rightarrow> int \<Rightarrow> 'a list \<Rightarrow> 'a list" where
  "py_slice lo hi xs =
     (let l = slice_index (length xs) lo; h = slice_index (length xs) hi
      in take (h - l) (drop l xs))"

definition slice_upto :: "int \<Rightarrow> 'a list \<Rightarrow> 'a list" where
  "slice_upto hi xs = take (slice_index (length xs) hi) xs"

definition slice_from :: "int \<Rightarrow> 'a list \<Rightarrow> 'a list" where
  "slice_from lo xs = drop (slice_index (length xs) lo) xs"

definition np_mean :: "real list \<Rightarrow> real option" where
  "np_mean xs = (if xs = [] then None else Some (sum_list xs / real (length xs)))"

definition nan_less :: "real option \<Rightarrow> real \<Rightarrow> bool" where
  "nan_less v t = (case v of None \<Rightarrow> False | Some x \<Rightarrow> x < t)"

text \<open>\<open>x.astype(np.float32) / 32768.0\<close>: exact, an int16 divided by a power of two.\<close>

definition to_float :: "sample list \<Rightarrow> audio" where
  "to_float xs = map (\<lambda>w. real_of_int (sint w) / 32768) xs"

text \<open>\<open>np.abs\<close> on int16 wraps: the absolute value of -32768 is -32768.\<close>

definition abs16 :: "sample \<Rightarrow> sample" where
  "abs16 w = (if sint w < 0 then - w else w)"

definition mean_abs :: "sample list \<Rightarrow> real option" where
  "mean_abs xs = np_mean (map (\<lambda>w. real_of_int (sint (abs16 w))) xs)"

section \<open>audio\_recorder.py: AudioRecorder\<close>

text \<open>
  An \<open>sd.InputStream\<close>: the constructor opens the device and the stream stays open until
  \<open>close()\<close>; \<open>start()\<close> makes it deliver callbacks.
\<close>

record stream =
  stream_device :: nat
  stream_samplerate :: real
  stream_active :: bool
  stream_closed :: bool

text \<open>
  The audio driver, as far as \<open>start_recording\<close> sees it: opening a device raises or
  yields the device's default rate; starting an opened stream raises or succeeds. The
  driver is stateful, so an answer may depend on the devices this call has already opened
  (or started), given in order: a device that opened once may be busy the second time.
\<close>

record driver =
  open_stream :: "nat list \<Rightarrow> nat \<Rightarrow> exn + real"
  start_stream :: "nat list \<Rightarrow> nat \<Rightarrow> exn option"

text \<open>A \<open>T.Resample\<close> object is its pair of frequencies; applying it is the library's
  business and is a parameter of the functions below.\<close>

type_synonym resampler = "int \<times> int"
type_synonym resample_fn = "int \<Rightarrow> int \<Rightarrow> audio \<Rightarrow> audio"

record recorder =
  mic_id :: nat
  loopback_id :: nat
  transcription_queue :: "(audio \<times> source) list"
  level_callback :: bool
  level_reports :: "(source \<times> audio) list"
  mic_buffer :: "sample list list"
  loopback_buffer :: "sample list list"
  mic_buffer_size :: int
  loopback_buffer_size :: int
  loopback_silence_warning_shown :: bool
  mic_stream :: "stream option"
  loopback_stream :: "stream option"
  mic_samplerate :: "int option"
  loopback_samplerate :: "int option"
  mic_resampler :: "resampler option"
  loopback_resampler :: "resampler option"
  mic_file_buffer :: "sample list list"
  loopback_file_buffer :: "sample list list"
  is_writing_audio :: bool
  mixed_audio_path :: "string option"

text \<open>\<open>AudioRecorder.__init__\<close>.\<close>

definition init_recorder :: "nat \<Rightarrow> nat \<Rightarrow> bool \<Rightarrow> recorder" where
  "init_recorder mic lb cb =
     \<lparr> mic_id = mic, loopback_id = lb, transcription_queue = [],
       level_callback = cb, level_reports = [],
       mic_buffer = [], loopback_buffer = [],
       mic_buffer_size = 0, loopback_buffer_size = 0,
       loopback_silence_warning_shown = False,
       mic_stream = None, loopback_stream = None,
       mic_samplerate = None, loopback_samplerate = None,
       mic_resampler = None, loopback_resampler = None,
       mic_file_buffer = [], loopback_file_buffer = [],
       is_writing_audio = False, mixed_audio_path = None \<rparr>"

text \<open>The per-source attributes that \<open>_process_data\<close> selects by \<open>source_name\<close>.\<close>

definition buffer_list_of :: "source \<Rightarrow> recorder \<Rightarrow> sample list list" where
  "buffer_list_of s r = (case s of MIC \<Rightarrow> mic_buffer r | LOOPBACK \<Rightarrow> loopback_buffer r)"

definition buffer_size_of :: "source \<Rightarrow> recorder \<Rightarrow> int" where
  "buffer_size_of s r = (case s of MIC \<Rightarrow> mic_buffer_size r | LOOPBACK \<Rightarrow> loopback_buffer_size r)"

definition samplerate_of :: "source \<Rightarrow> recorder \<Rightarrow> int option" where
  "samplerate_of s r = (case s of MIC \<Rightarrow> mic_samplerate r | LOOPBACK \<Rightarrow> loopback_samplerate r)"

definition resampler_of :: "source \<Rightarrow> recorder \<Rightarrow> resampler option" where
  "resampler_of s r = (case s of MIC \<Rightarrow> mic_resampler r | LOOPBACK \<Rightarrow> loopback_resampler r)"

definition set_buffer_list :: "source \<Rightarrow> sample list list \<Rightarrow> recorder \<Rightarrow> recorder" where
  "set_buffer_list s b r =
     (case s of MIC \<Rightarrow> r\<lparr>mic_buffer := b\<rparr> | LOOPBACK \<Rightarrow> r\<lparr>loopback_buffer := b\<rparr>)"

definition set_buffer_size :: "source \<Rightarrow> int \<Rightarrow> recorder \<Rightarrow> recorder" where
  "set_buffer_size s n r =
     (case s of MIC \<Rightarrow> r\<lparr>mic_buffer_size := n\<rparr> | LOOPBACK \<Rightarrow> r\<lparr>loopback_buffer_size := n\<rparr>)"

definition frames_per_chunk :: "int \<Rightarrow> int" where
  "frames_per_chunk samplerate = py_int (real_of_int samplerate * CHUNK_SECONDS)"

text \<open>Lines 65-68: the level report, when a level callback is configured. The callback
  receives the float32 RMS of the scaled block; the record of the invocation keeps the
  scaled block itself.\<close>

definition report_level :: "sample list \<Rightarrow> source \<Rightarrow> recorder \<Rightarrow> recorder" where
  "report_level indata source_name r =
     (if level_callback r
      then r\<lparr>level_reports := level_reports r @ [(source_name, to_float indata)]\<rparr>
      else r)"

text \<open>Lines 71-75: the copy of the raw block kept while a file recording is active.\<close>

definition record_block :: "sample list \<Rightarrow> source \<Rightarrow> recorder \<Rightarrow> recorder" where
  "record_block indata source_name r =
     (if is_writing_audio r
      then (if source_name = MIC
            then r\<lparr>mic_file_buffer := mic_file_buffer r @ [indata]\<rparr>
            else r\<lparr>loopback_file_buffer := loopback_file_buffer r @ [indata]\<rparr>)
      else r)"

text \<open>Lines 92-99: the sticky one-time warning about a quiet loopback stream.\<close>

definition silence_warning :: "sample list \<Rightarrow> source \<Rightarrow> recorder \<Rightarrow> recorder" where
  "silence_warning indata source_name r =
     (if source_name = LOOPBACK \<and> \<not> loopback_silence_warning_shown r
         \<and> nan_less (mean_abs indata) 100
      then r\<lparr>loopback_silence_warning_shown := True\<rparr>
      else r)"

text \<open>Lines 65-99 in order: level report, file-recording copy, loopback warning.\<close>

definition pre_push :: "sample list \<Rightarrow> source \<Rightarrow> recorder \<Rightarrow> recorder" where
  "pre_push indata source_name r =
     silence_warning indata source_name
       (record_block indata source_name (report_level indata source_name r))"

definition chunk_audio :: "resample_fn \<Rightarrow> resampler option \<Rightarrow> sample list \<Rightarrow> audio" where
  "chunk_audio resample rs chunk =
     (case rs of Some (orig, new) \<Rightarrow> resample orig new (to_float chunk)
      | None \<Rightarrow> to_float chunk)"

text \<open>
  Lines 101-132. The block is appended to the source's buffer list in place, so the
  append survives the \<open>TypeError\<close> that \<open>samplerate * CHUNK_SECONDS\<close> raises while the
  rate is still \<open>None\<close>; the size attribute is only written back at the end. A chunk is
  cut by a single \<open>if\<close>: at most one per call.
\<close>

definition process_data ::
  "resample_fn \<Rightarrow> sample list \<Rightarrow> source \<Rightarrow> recorder \<Rightarrow> (exn + unit) \<times> recorder" where
  "process_data resample indata source_name r0 =
     (let r1 = pre_push indata source_name r0;
          buffer_list = buffer_list_of source_name r1 @ [indata];
          r2 = set_buffer_list source_name buffer_list r1;
          buffer_size = buffer_size_of source_name r1 + int (length indata)
      in case samplerate_of source_name r1 of
           None \<Rightarrow> (Inl TypeError, r2)
         | Some samplerate \<Rightarrow>
             (let fpc = frames_per_chunk samplerate
              in if buffer_size \<ge> fpc
                 then
                   (let full_audio = concat buffer_list;
                        chunk = slice_upto fpc full_audio;
                        remainder = slice_from fpc full_audio;
                        r3 = set_buffer_list source_name
                               (if length remainder > 0 then [remainder] else []) r2;
                        buffer_size' = (if length remainder > 0 then int (length remainder) else 0);
                        audio_final = chunk_audio resample (resampler_of source_name r1) chunk;
                        r4 = r3\<lparr>transcription_queue :=
                                  transcription_queue r3 @ [(audio_final, source_name)]\<rparr>
                    in (Inr (), set_buffer_size source_name buffer_size' r4))
                 else (Inr (), set_buffer_size source_name buffer_size r2)))"

text \<open>A sequence of driver callbacks for one source; an exception ends it, as it would
  end the callback that raised.\<close>

fun push_all ::
  "resample_fn \<Rightarrow> source \<Rightarrow> sample list list \<Rightarrow> recorder \<Rightarrow> (exn + unit) \<times> recorder" where
  "push_all resample s [] r = (Inr (), r)"
| "push_all resample s (b # bs) r =
     (case process_data resample b s r of
        (Inl e, r') \<Rightarrow> (Inl e, r')
      | (Inr u, r') \<Rightarrow> push_all resample s bs r')"

text \<open>\<open>start_audio_file_writing\<close>.\<close>

definition start_audio_file_writing :: "string \<Rightarrow> recorder \<Rightarrow> recorder" where
  "start_audio_file_writing mixed_path r =
     r\<lparr>mixed_audio_path := Some mixed_path, mic_file_buffer := [],
       loopback_file_buffer := [], is_writing_audio := True\<rparr>"

text \<open>
  One track of the mix (lines 162-183): the recorded blocks concatenated, scaled and
  resampled to the mix rate when the native rate differs. Building a \<open>T.Resample\<close> from
  a rate that is still \<open>None\<close> raises.
\<close>

definition mix_track :: "resample_fn \<Rightarrow> int option \<Rightarrow> sample list list \<Rightarrow> exn + audio" where
  "mix_track resample rate buffer_copy =
     (if buffer_copy \<noteq> []
      then (let t = to_float (concat buffer_copy)
            in if rate \<noteq> Some MIX_SAMPLE_RATE
               then (case rate of None \<Rightarrow> Inl TypeError
                     | Some sr \<Rightarrow> Inr (resample sr MIX_SAMPLE_RATE t))
               else Inr t)
      else Inr [])"

definition pad_to :: "nat \<Rightarrow> audio \<Rightarrow> audio" where
  "pad_to n t = t @ replicate (n - length t) 0"

text \<open>
  \<open>stop_audio_file_writing\<close>. \<open>save\<close> stands for \<open>torchaudio.save\<close>: it receives the path
  and the two padded channels and tells whether the write succeeded (an exception there is
  caught and turned into \<open>None\<close>).
\<close>

definition stop_audio_file_writing ::
  "resample_fn \<Rightarrow> (string \<Rightarrow> audio \<times> audio \<Rightarrow> bool) \<Rightarrow> recorder
     \<Rightarrow> (exn + string option) \<times> recorder" where
  "stop_audio_file_writing resample save r0 =
     (let mic_buffer_copy = mic_file_buffer r0;
          loopback_buffer_copy = loopback_file_buffer r0;
          r = r0\<lparr>is_writing_audio := False, mic_file_buffer := [], loopback_file_buffer := []\<rparr>
      in case mixed_audio_path r of
           None \<Rightarrow> (Inr None, r)
         | Some path \<Rightarrow>
             if path = [] then (Inr None, r)
             else if mic_buffer_copy = [] \<and> loopback_buffer_copy = [] then (Inr None, r)
             else
               (case mix_track resample (mic_samplerate r) mic_buffer_copy of
                  Inl e \<Rightarrow> (Inl e, r)
                | Inr mic_tensor \<Rightarrow>
                    (case mix_track resample (loopback_samplerate r) loopback_buffer_copy of
                       Inl e \<Rightarrow> (Inl e, r)
                     | Inr loopback_tensor \<Rightarrow>
                         (let max_len = max (length mic_tensor) (length loopback_tensor)
                          in if max_len > 0
                             then (if save path (pad_to max_len mic_tensor,
                                                 pad_to max_len loopback_tensor)
                                   then (Inr (Some path), r)
                                   else (Inr None, r))
                             else (Inr None, r)))))"

text \<open>
  \<open>start_recording\<close>. Each statement that can raise is a branch; the state returned
  with an exception is the state at the moment it was raised. Nothing closes a stream
  on the way out.
\<close>

definition new_stream :: "nat \<Rightarrow> real \<Rightarrow> stream" where
  "new_stream dev rate =
     \<lparr> stream_device = dev, stream_samplerate = rate, stream_active = False, stream_closed = False \<rparr>"

definition make_resampler :: "int \<Rightarrow> resampler option \<Rightarrow> resampler option" where
  "make_resampler rate old =
     (if rate \<noteq> WHISPER_SAMPLE_RATE then Some (rate, WHISPER_SAMPLE_RATE) else old)"

definition start_recording :: "driver \<Rightarrow> recorder \<Rightarrow> (exn + unit) \<times> recorder" where
  "start_recording drv r0 =
     (case open_stream drv [] (mic_id r0) of
        Inl e \<Rightarrow> (Inl e, r0)
      | Inr mic_rate \<Rightarrow>
          (let ms = new_stream (mic_id r0) mic_rate;
               r1 = r0\<lparr>mic_stream := Some ms\<rparr>
           in case open_stream drv [mic_id r0] (loopback_id r1) of
                Inl e \<Rightarrow> (Inl e, r1)
              | Inr lb_rate \<Rightarrow>
                  (let ls = new_stream (loopback_id r1) lb_rate;
                       r2 = r1\<lparr>loopback_stream := Some ls\<rparr>;
                       r3 = r2\<lparr>mic_samplerate := Some (py_int mic_rate),
                               loopback_samplerate := Some (py_int lb_rate)\<rparr>;
                       r4 = r3\<lparr>mic_resampler := make_resampler (py_int mic_rate) (mic_resampler r3),
                               loopback_resampler :=
                                 make_resampler (py_int lb_rate) (loopback_resampler r3)\<rparr>
                   in case start_stream drv [] (mic_id r4) of
                        Some e \<Rightarrow> (Inl e, r4)
                      | None \<Rightarrow>
                          (let r5 = r4\<lparr>mic_stream := Some (ms\<lparr>stream_active := True\<rparr>)\<rparr>
                           in case start_stream drv [mic_id r0] (loopback_id r5) of
                                Some e \<Rightarrow> (Inl e, r5)
                              | None \<Rightarrow>
                                  (Inr (), r5\<lparr>loopback_stream :=
                                               Some (ls\<lparr>stream_active := True\<rparr>)\<rparr>)))))"

definition stream_open :: "stream option \<Rightarrow> bool" where
  "stream_open so = (case so of None \<Rightarrow> False | Some s \<Rightarrow> \<not> stream_closed s)"

definition stream_running :: "stream option \<Rightarrow> bool" where
  "stream_running so = (case so of None \<Rightarrow> False | Some s \<Rightarrow> stream_active s \<and> \<not> stream_closed s)"

section \<open>transcriber.py: Transcriber\<close>

text \<open>
  A Python \<open>str\<close> produced by the engine is the list of its code points.
  \<open>str.strip()\<close> with no argument removes leading and trailing whitespace, the code
  points for which \<open>str.isspace\<close> holds: tab to carriage return, the separators 28 to 31,
  the space, U+0085, U+00A0, U+1680, U+2000 to U+200A, U+2028, U+2029, U+202F, U+205F and
  U+3000.
\<close>

type_synonym ustring = "nat list"

definition is_space :: "nat \<Rightarrow> bool" where
  "is_space n \<longleftrightarrow>
     (9 \<le> n \<and> n \<le> 13) \<or> (28 \<le> n \<and> n \<le> 32) \<or> n = 133 \<or> n = 160 \<or> n = 5760
     \<or> (8192 \<le> n \<and> n \<le> 8202) \<or> n = 8232 \<or> n = 8233 \<or> n = 8239 \<or> n = 8287
     \<or> n = 12288"

definition py_strip :: "ustring \<Rightarrow> ustring" where
  "py_strip s = rev (dropWhile is_space (rev (dropWhile is_space s)))"

datatype device = CUDA | CPU

text \<open>The keyword arguments of \<open>model.transcribe\<close> that the code passes; \<open>None\<close> is
  an argument left to the engine's default.\<close>

record transcribe_args =
  language :: "string option"
  fp16 :: bool
  logprob_threshold :: "real option"
  no_speech_threshold :: "real option"
  task :: "string option"

text \<open>One item of \<open>diarization.itertracks(yield_label=True)\<close>: the segment's bounds in
  seconds and the speaker label.\<close>

record track =
  seg_start :: real
  seg_end :: real
  speaker :: string

text \<open>An engine call as the consumer made it, with the device the engine was on.\<close>

datatype engine_call =
    TranscribeCall audio transcribe_args "device option"
  | DiarizeCall audio int "(string \<times> int) list" "device option"

text \<open>
  What the consumer takes from outside. The two engines: an answer may depend on how many
  engine calls came before (the \<open>nat\<close>), on the device and on the arguments; it is an
  exception or a value. \<open>model_to_cpu\<close> and \<open>pipeline_to_cpu\<close> say whether
  \<open>.to('cpu')\<close> raises. The floating-point operations whose rounded result decides a
  branch: \<open>np_rms a\<close> is the value of \<open>np.sqrt(np.mean(a**2))\<close>, a float32, or
  \<open>None\<close> when that is NaN or an overflow to infinity, for both of which \<open>rms < 0.001\<close>
  is false; \<open>float_mul x y\<close> is Python's product of two floats, the rounded double
  (finite for the times of an audio chunk).
\<close>

record engines =
  transcribe :: "nat \<Rightarrow> device option \<Rightarrow> audio \<Rightarrow> transcribe_args \<Rightarrow> exn + ustring"
  diarize :: "nat \<Rightarrow> device option \<Rightarrow> audio \<Rightarrow> (string \<times> int) list \<Rightarrow> exn + track list"
  model_to_cpu :: "exn option"
  pipeline_to_cpu :: "exn option"
  np_rms :: "audio \<Rightarrow> real option"
  float_mul :: "real \<Rightarrow> real \<Rightarrow> real"

text \<open>
  The consumer's state. \<open>model_device\<close> and \<open>pipeline_device\<close> are the \<open>device.type\<close> of
  the two engines (\<open>None\<close>: no such attribute); \<open>calls\<close>, \<open>emitted\<close> and \<open>error_log\<close>
  record the engine calls made, the text callback's invocations and the exceptions
  printed by the handlers, in order.
\<close>

record transcriber =
  text_callback :: bool
  min_speakers :: int
  max_speakers :: int
  model_device :: "device option"
  diarization_pipeline :: bool
  pipeline_device :: "device option"
  segmentation_onset :: real
  transcription_language :: string
  recording_enabled :: bool
  tasks_done :: nat
  calls :: "engine_call list"
  emitted :: "(ustring \<times> source \<times> string option) list"
  error_log :: "exn list"

text \<open>\<open>None if self.transcription_language == 'auto' else self.transcription_language\<close>.\<close>

definition lang_param :: "transcriber \<Rightarrow> string option" where
  "lang_param st =
     (if transcription_language st = ''auto'' then None else Some (transcription_language st))"

definition standard_args :: "transcriber \<Rightarrow> transcribe_args" where
  "standard_args st =
     \<lparr> language = lang_param st, fp16 = False, logprob_threshold = None,
       no_speech_threshold = None, task = None \<rparr>"

definition mic_args :: transcribe_args where
  "mic_args =
     \<lparr> language = Some ''en'', fp16 = False, logprob_threshold = Some (- 0.8),
       no_speech_threshold = Some 0.7, task = None \<rparr>"

definition retry_args :: transcribe_args where
  "retry_args =
     \<lparr> language = Some ''en'', fp16 = False, logprob_threshold = None,
       no_speech_threshold = None, task = Some ''transcribe'' \<rparr>"

definition model_transcribe ::
  "engines \<Rightarrow> audio \<Rightarrow> transcribe_args \<Rightarrow> transcriber \<Rightarrow> (exn + ustring) \<times> transcriber" where
  "model_transcribe eng a args st =
     (transcribe eng (length (calls st)) (model_device st) a args,
      st\<lparr>calls := calls st @ [TranscribeCall a args (model_device st)]\<rparr>)"

text \<open>\<open>text = result['text'].strip()\<close>, then the callback when the text is non-empty and
  a callback is set.\<close>

definition emit_text :: "ustring \<Rightarrow> source \<Rightarrow> string option \<Rightarrow> transcriber \<Rightarrow> transcriber" where
  "emit_text raw src spk st =
     (let text = py_strip raw
      in if text \<noteq> [] \<and> text_callback st
         then st\<lparr>emitted := emitted st @ [(text, src, spk)]\<rparr>
         else st)"

definition log_error :: "exn \<Rightarrow> transcriber \<Rightarrow> transcriber" where
  "log_error e st = st\<lparr>error_log := error_log st @ [e]\<rparr>"

text \<open>
  \<open>_transcribe_standard\<close>: the silence gate and the fixed English call for the
  microphone, the configured language otherwise. The gate is \<open>rms < 0.001\<close> on a float32
  \<open>rms\<close>. No float32 lies between the real 0.001 and either of its roundings (to
  float32, above it, or to a double), so for the value of a float32 the comparison with
  the real 0.001 decides as the code's does.
\<close>

definition transcribe_standard ::
  "engines \<Rightarrow> audio \<Rightarrow> source \<Rightarrow> transcriber \<Rightarrow> (exn + unit) \<times> transcriber" where
  "transcribe_standard eng audio_float src st =
     (if src = MIC
      then (if nan_less (np_rms eng audio_float) 0.001
            then (Inr (), st)
            else (case model_transcribe eng audio_float mic_args st of
                    (Inl e, st1) \<Rightarrow> (Inl e, st1)
                  | (Inr raw, st1) \<Rightarrow> (Inr (), emit_text raw src None st1)))
      else (case model_transcribe eng audio_float (standard_args st) st of
              (Inl e, st1) \<Rightarrow> (Inl e, st1)
            | (Inr raw, st1) \<Rightarrow> (Inr (), emit_text raw src None st1)))"

definition diarization_params :: "transcriber \<Rightarrow> (string \<times> int) list" where
  "diarization_params st =
     (if min_speakers st > 0 then [(''min_speakers'', min_speakers st)] else [])
     @ (if max_speakers st > 0 then [(''max_speakers'', max_speakers st)] else [])"

definition run_diarization ::
  "engines \<Rightarrow> audio \<Rightarrow> transcriber \<Rightarrow> (exn + track list) \<times> transcriber" where
  "run_diarization eng a st =
     (diarize eng (length (calls st)) (pipeline_device st) a (diarization_params st),
      st\<lparr>calls := calls st @
            [DiarizeCall a WHISPER_SAMPLE_RATE (diarization_params st) (pipeline_device st)]\<rparr>)"

text \<open>Lines 171-174: the frame bounds are the truncated float products
  \<open>segment.start * WHISPER_SAMPLE_RATE\<close> and \<open>segment.end * WHISPER_SAMPLE_RATE\<close>.\<close>

definition segment_audio :: "engines \<Rightarrow> audio \<Rightarrow> track \<Rightarrow> audio" where
  "segment_audio eng audio_float trk =
     py_slice (py_int (float_mul eng (seg_start trk) (real_of_int WHISPER_SAMPLE_RATE)))
              (py_int (float_mul eng (seg_end trk) (real_of_int WHISPER_SAMPLE_RATE))) audio_float"

text \<open>\<open>len(segment_audio) < WHISPER_SAMPLE_RATE * 0.2\<close>; the product of 16000 and the
  double 0.2 rounds to the double 3200.\<close>

definition too_short :: "audio \<Rightarrow> bool" where
  "too_short seg = (real (length seg) < real_of_int WHISPER_SAMPLE_RATE * 0.2)"

text \<open>
  The body of the loop over the tracks (lines 170-209): a short segment is skipped; the
  first attempt uses the configured language; any exception there is caught and the
  segment is tried once more in English with \<open>task="transcribe"\<close>; an exception of the
  second attempt is caught as well. The body never raises.
\<close>

definition transcribe_segment :: "engines \<Rightarrow> audio \<Rightarrow> track \<Rightarrow> transcriber \<Rightarrow> transcriber" where
  "transcribe_segment eng audio_float trk st =
     (let seg = segment_audio eng audio_float trk
      in if too_short seg then st
         else (case model_transcribe eng seg (standard_args st) st of
                 (Inr raw, st1) \<Rightarrow> emit_text raw LOOPBACK (Some (speaker trk)) st1
               | (Inl seg_error, st1) \<Rightarrow>
                   (case model_transcribe eng seg retry_args (log_error seg_error st1) of
                      (Inr raw, st2) \<Rightarrow> emit_text raw LOOPBACK (Some (speaker trk)) st2
                    | (Inl fallback_error, st2) \<Rightarrow> log_error fallback_error st2)))"

fun transcribe_segments :: "engines \<Rightarrow> audio \<Rightarrow> track list \<Rightarrow> transcriber \<Rightarrow> transcriber" where
  "transcribe_segments eng audio_float [] st = st"
| "transcribe_segments eng audio_float (trk # trks) st =
     transcribe_segments eng audio_float trks (transcribe_segment eng audio_float trk st)"

text \<open>
  The \<open>try\<close> block of \<open>diarize_and_transcribe\<close> (lines 121-209). Setting the onset on a
  missing pipeline raises; the diarizer call and the whole-chunk call of the
  zero-segment branch pass their exception on to the handlers.
\<close>

definition diarize_body ::
  "engines \<Rightarrow> audio \<Rightarrow> transcriber \<Rightarrow> (exn + unit) \<times> transcriber" where
  "diarize_body eng audio_float st0 =
     (if \<not> diarization_pipeline st0 then (Inl AttributeError, st0)
      else
        (let st = st0\<lparr>segmentation_onset := 0.5\<rparr>
         in case run_diarization eng audio_float st of
              (Inl e, st1) \<Rightarrow> (Inl e, st1)
            | (Inr tracks, st1) \<Rightarrow>
                if length tracks = 0
                then (case model_transcribe eng audio_float (standard_args st1) st1 of
                        (Inl e, st2) \<Rightarrow> (Inl e, st2)
                      | (Inr raw, st2) \<Rightarrow> (Inr (), emit_text raw LOOPBACK None st2))
                else (Inr (), transcribe_segments eng audio_float tracks st1)))"

text \<open>Lines 216-225: each engine that is on the accelerator is moved; a failing move
  ends the handler ("Can't recover").\<close>

definition move_pipeline_to_cpu :: "engines \<Rightarrow> transcriber \<Rightarrow> (exn + unit) \<times> transcriber" where
  "move_pipeline_to_cpu eng st =
     (if diarization_pipeline st \<and> pipeline_device st = Some CUDA
      then (case pipeline_to_cpu eng of
              Some e \<Rightarrow> (Inl e, st)
            | None \<Rightarrow> (Inr (), st\<lparr>pipeline_device := Some CPU\<rparr>))
      else (Inr (), st))"

definition move_models_to_cpu :: "engines \<Rightarrow> transcriber \<Rightarrow> (exn + unit) \<times> transcriber" where
  "move_models_to_cpu eng st =
     (if model_device st = Some CUDA
      then (case model_to_cpu eng of
              Some e \<Rightarrow> (Inl e, st)
            | None \<Rightarrow> move_pipeline_to_cpu eng (st\<lparr>model_device := Some CPU\<rparr>))
      else move_pipeline_to_cpu eng st)"

text \<open>The handler of \<open>torch.OutOfMemoryError\<close> (lines 211-238); it never raises.\<close>

definition oom_handler :: "engines \<Rightarrow> audio \<Rightarrow> exn \<Rightarrow> transcriber \<Rightarrow> transcriber" where
  "oom_handler eng audio_float e st =
     (case move_models_to_cpu eng (log_error e st) of
        (Inl move_e, st1) \<Rightarrow> log_error move_e st1
      | (Inr u, st1) \<Rightarrow>
          (case model_transcribe eng audio_float (standard_args st1) st1 of
             (Inr raw, st2) \<Rightarrow> emit_text raw LOOPBACK None st2
           | (Inl cpu_e, st2) \<Rightarrow> log_error cpu_e st2))"

text \<open>The handler of every other \<open>Exception\<close> (lines 240-251); its own engine call is
  not guarded.\<close>

definition generic_handler ::
  "engines \<Rightarrow> audio \<Rightarrow> exn \<Rightarrow> transcriber \<Rightarrow> (exn + unit) \<times> transcriber" where
  "generic_handler eng audio_float e st =
     (let st1 = log_error e st
      in case model_transcribe eng audio_float (standard_args st1) st1 of
           (Inl e', st2) \<Rightarrow> (Inl e', st2)
         | (Inr raw, st2) \<Rightarrow> (Inr (), emit_text raw LOOPBACK None st2))"

definition diarize_and_transcribe ::
  "engines \<Rightarrow> audio \<Rightarrow> transcriber \<Rightarrow> (exn + unit) \<times> transcriber" where
  "diarize_and_transcribe eng audio_float st =
     (case diarize_body eng audio_float st of
        (Inr u, st1) \<Rightarrow> (Inr (), st1)
      | (Inl e, st1) \<Rightarrow>
          if e = OutOfMemoryError then (Inr (), oom_handler eng audio_float e st1)
          else generic_handler eng audio_float e st1)"

text \<open>The \<open>try\<close> block of one iteration of \<open>run\<close>, after a chunk was dequeued and with
  recording enabled (lines 60-75).\<close>

definition process_chunk ::
  "engines \<Rightarrow> audio \<Rightarrow> source \<Rightarrow> transcriber \<Rightarrow> (exn + unit) \<times> transcriber" where
  "process_chunk eng audio_float src st =
     (if src = LOOPBACK
      then (if diarization_pipeline st
            then diarize_and_transcribe eng audio_float st
            else transcribe_standard eng audio_float src st)
      else transcribe_standard eng audio_float src st)"

text \<open>
  One iteration of the loop of \<open>run\<close>: \<open>None\<close> is the \<open>queue.Empty\<close> of a timed-out
  \<open>get\<close>. Every exception of the body is caught and logged; the iteration always
  yields the next state of the loop.
\<close>

definition task_done :: "transcriber \<Rightarrow> transcriber" where
  "task_done st = st\<lparr>tasks_done := Suc (tasks_done st)\<rparr>"

definition run_iteration :: "engines \<Rightarrow> (audio \<times> source) option \<Rightarrow> transcriber \<Rightarrow> transcriber" where
  "run_iteration eng item st =
     (case item of
        None \<Rightarrow> st
      | Some (audio_float, src) \<Rightarrow>
          if \<not> recording_enabled st then task_done st
          else (case process_chunk eng audio_float src st of
                  (Inr u, st1) \<Rightarrow> task_done st1
                | (Inl e, st1) \<Rightarrow> task_done (log_error e st1)))"

text \<open>The loop, over the results of the successive \<open>get\<close> calls up to the stop signal.\<close>

fun run :: "engines \<Rightarrow> (audio \<times> source) option list \<Rightarrow> transcriber \<Rightarrow> transcriber" where
  "run eng [] st = st"
| "run eng (item # items) st = run eng items (run_iteration eng item st)"

text \<open>\<open>Transcriber.__init__\<close>, given the configured language, whether a callback and a
  pipeline were passed, and the devices the engines were loaded on. The onset of the
  pipeline starts at its default, 0.83 by the source's comment.\<close>

definition init_transcriber ::
  "string \<Rightarrow> bool \<Rightarrow> bool \<Rightarrow> device option \<Rightarrow> device option \<Rightarrow> transcriber" where
  "init_transcriber lang cb pipeline mdev pdev =
     \<lparr> text_callback = cb, min_speakers = 0, max_speakers = 0,
       model_device = mdev, diarization_pipeline = pipeline, pipeline_device = pdev,
       segmentation_onset = 0.83, transcription_language = lang,
       recording_enabled = False, tasks_done = 0,
       calls = [], emitted = [], error_log = [] \<rparr>"

section \<open>Auxiliary notions for the proofs\<close>

text \<open>The state right after the diarizer call of \<open>diarize_body\<close>: onset set, call
  recorded.\<close>

definition after_diarize :: "engines \<Rightarrow> audio \<Rightarrow> transcriber \<Rightarrow> transcriber" where
  "after_diarize eng a st = snd (run_diarization eng a (st\<lparr>segmentation_onset := 0.5\<rparr>))"

text \<open>Steps that leave the configuration of the consumer alone.\<close>

definition stable :: "transcriber \<Rightarrow> transcriber \<Rightarrow> bool" where
  "stable st st' \<longleftrightarrow>
     model_device st' = model_device st \<and> pipeline_device st' = pipeline_device st
     \<and> text_callback st' = text_callback st \<and> diarization_pipeline st' = diarization_pipeline st
     \<and> recording_enabled st' = recording_enabled st \<and> standard_args st' = standard_args st
     \<and> tasks_done st' = tasks_done st"

text \<open>Each engine is where it was, or on the CPU.\<close>

definition devices_kept :: "transcriber \<Rightarrow> transcriber \<Rightarrow> bool" where
  "devices_kept st st' \<longleftrightarrow>
     (model_device st' = model_device st \<or> model_device st' = Some CPU)
     \<and> (pipeline_device st' = pipeline_device st \<or> pipeline_device st' = Some CPU)"

section \<open>Concrete inputs\<close>

text \<open>Stand-ins for the external library functions and engines, and sample states,
  used where a property is evaluated on a concrete input.\<close>

definition identity_resample :: resample_fn where
  "identity_resample orig new xs = xs"

definition example_recorder :: recorder where
  "example_recorder =
     (init_recorder 0 1 False)\<lparr>mic_samplerate := Some 16000, loopback_samplerate := Some 16000\<rparr>"

definition always_saves :: "string \<Rightarrow> audio \<times> audio \<Rightarrow> bool" where
  "always_saves path channels = True"

definition loopback_fails_driver :: driver where
  "loopback_fails_driver =
     \<lparr> open_stream = (\<lambda>opened dev. if dev = 1 then Inl PortAudioError else Inr 48000),
       start_stream = (\<lambda>started dev. None) \<rparr>"

text \<open>A driver on which a device can be opened only once.\<close>

definition busy_device_driver :: driver where
  "busy_device_driver =
     \<lparr> open_stream = (\<lambda>opened dev. if dev \<in> set opened then Inl PortAudioError else Inr 48000),
       start_stream = (\<lambda>started dev. None) \<rparr>"


definition cpu_transcriber :: transcriber where
  "cpu_transcriber =
     (init_transcriber ''de'' True True (Some CPU) (Some CPU))\<lparr>recording_enabled := True\<rparr>"

definition loud_chunk :: audio where
  "loud_chunk = [1, - 1, 1, - 1]"

definition silent_chunk :: audio where
  "silent_chunk = [0, 0, 0, 0]"

text \<open>The float32 RMS of the two sample chunks: 1 for the loud one, 0 for the silent
  one. The products of the sample times with 16000 are whole numbers, exact in a
  double.\<close>

definition sample_rms :: "audio \<Rightarrow> real option" where
  "sample_rms a = (if a = loud_chunk then Some 1 else if a = silent_chunk then Some 0 else None)"

definition exact_product :: "real \<Rightarrow> real \<Rightarrow> real" where
  "exact_product x y = x * y"

text \<open>A text made of a no-break space (U+00A0), the word hello and a space, and what
  \<open>strip()\<close> leaves of it.\<close>

definition padded_hello :: ustring where
  "padded_hello = [160, 104, 101, 108, 108, 111, 32]"

definition hello :: ustring where
  "hello = [104, 101, 108, 108, 111]"

definition oom_on_cuda_engines :: engines where
  "oom_on_cuda_engines =
     \<lparr> transcribe = (\<lambda>n dev a args. if dev = Some CUDA then Inl OutOfMemoryError else Inr padded_hello),
       diarize = (\<lambda>n dev a ps. if dev = Some CUDA then Inl OutOfMemoryError else Inr []),
       model_to_cpu = None, pipeline_to_cpu = None,
       np_rms = sample_rms, float_mul = exact_product \<rparr>"

definition flaky_engines :: engines where
  "flaky_engines =
     \<lparr> transcribe = (\<lambda>n dev a args. if n = 1 then Inl RuntimeError else Inr padded_hello),
       diarize = (\<lambda>n dev a ps. Inr []),
       model_to_cpu = None, pipeline_to_cpu = None,
       np_rms = sample_rms, float_mul = exact_product \<rparr>"

definition steady_engines :: engines where
  "steady_engines =
     \<lparr> transcribe = (\<lambda>n dev a args. Inr padded_hello),
       diarize = (\<lambda>n dev a ps. Inr []),
       model_to_cpu = None, pipeline_to_cpu = None,
       np_rms = sample_rms, float_mul = exact_product \<rparr>"

definition broken_diarizer_engines :: engines where
  "broken_diarizer_engines =
     \<lparr> transcribe = (\<lambda>n dev a args. Inr padded_hello),
       diarize = (\<lambda>n dev a ps. Inl RuntimeError),
       model_to_cpu = None, pipeline_to_cpu = None,
       np_rms = sample_rms, float_mul = exact_product \<rparr>"





section \<open>Properties of the recorder\<close>

lemma frames_per_chunk_eq: "frames_per_chunk sr = 15 * sr"
proof -
  have h: "real_of_int sr * (150 / 10) = real_of_int (15 * sr)" by simp
  show ?thesis
    unfolding frames_per_chunk_def CHUNK_SECONDS_def py_int_def h
    by (simp only: floor_of_int ceiling_of_int if_cancel)
qed

lemma pre_push_fields:
  "buffer_list_of s (pre_push indata s' r) = buffer_list_of s r"
  "buffer_size_of s (pre_push indata s' r) = buffer_size_of s r"
  "samplerate_of s (pre_push indata s' r) = samplerate_of s r"
  "resampler_of s (pre_push indata s' r) = resampler_of s r"
  "transcription_queue (pre_push indata s' r) = transcription_queue r"
  by (simp_all add: pre_push_def silence_warning_def record_block_def report_level_def
        buffer_list_of_def buffer_size_of_def samplerate_of_def resampler_of_def split: source.split)

lemma set_buffer_fields:
  "buffer_list_of s (set_buffer_list s b r) = b"
  "buffer_size_of s (set_buffer_list s' b r) = buffer_size_of s r"
  "transcription_queue (set_buffer_list s b r) = transcription_queue r"
  "buffer_list_of s (set_buffer_size s' n r) = buffer_list_of s r"
  "buffer_size_of s (set_buffer_size s n r) = n"
  "transcription_queue (set_buffer_size s n r) = transcription_queue r"
  "buffer_list_of s (r\<lparr>transcription_queue := q\<rparr>) = buffer_list_of s r"
  "buffer_size_of s (r\<lparr>transcription_queue := q\<rparr>) = buffer_size_of s r"
  by (simp_all add: set_buffer_list_def set_buffer_size_def
        buffer_list_of_def buffer_size_of_def split: source.split)

lemma process_data_emit:
  assumes sr: "samplerate_of s r = Some sr"
    and ge: "buffer_size_of s r + int (length indata) \<ge> 15 * sr"
  shows "fst (process_data resample indata s r) = Inr ()"
    and "transcription_queue (snd (process_data resample indata s r)) =
           transcription_queue r @
             [(chunk_audio resample (resampler_of s r)
                 (slice_upto (15 * sr) (concat (buffer_list_of s r) @ indata)), s)]"
    and "concat (buffer_list_of s (snd (process_data resample indata s r))) =
           slice_from (15 * sr) (concat (buffer_list_of s r) @ indata)"
    and "buffer_size_of s (snd (process_data resample indata s r)) =
           int (length (slice_from (15 * sr) (concat (buffer_list_of s r) @ indata)))"
  using sr ge
  by (simp_all add: process_data_def Let_def pre_push_fields set_buffer_fields
        frames_per_chunk_eq)

lemma process_data_keep:
  assumes sr: "samplerate_of s r = Some sr"
    and lt: "buffer_size_of s r + int (length indata) < 15 * sr"
  shows "fst (process_data resample indata s r) = Inr ()"
    and "transcription_queue (snd (process_data resample indata s r)) = transcription_queue r"
    and "concat (buffer_list_of s (snd (process_data resample indata s r))) =
           concat (buffer_list_of s r) @ indata"
    and "buffer_size_of s (snd (process_data resample indata s r)) =
           buffer_size_of s r + int (length indata)"
  using sr lt
  by (simp_all add: process_data_def Let_def pre_push_fields set_buffer_fields
        frames_per_chunk_eq)

lemma set_buffer_other:
  "samplerate_of s (set_buffer_list s' b r) = samplerate_of s r"
  "samplerate_of s (set_buffer_size s' n r) = samplerate_of s r"
  "samplerate_of s (r\<lparr>transcription_queue := q\<rparr>) = samplerate_of s r"
  "resampler_of s (set_buffer_list s' b r) = resampler_of s r"
  "resampler_of s (set_buffer_size s' n r) = resampler_of s r"
  "resampler_of s (r\<lparr>transcription_queue := q\<rparr>) = resampler_of s r"
  by (simp_all add: set_buffer_list_def set_buffer_size_def samplerate_of_def resampler_of_def
        split: source.split)

lemma process_data_samplerate:
  "samplerate_of s (snd (process_data resample indata s' r)) = samplerate_of s r"
  by (simp add: process_data_def Let_def pre_push_fields set_buffer_other split: option.split)

lemma slice_upto_nat: "0 \<le> n \<Longrightarrow> slice_upto n xs = take (nat n) xs"
  by (simp add: slice_upto_def slice_index_def min_def)

lemma slice_from_nat: "0 \<le> n \<Longrightarrow> slice_from n xs = drop (nat n) xs"
  by (simp add: slice_from_def slice_index_def min_def)

subsection \<open>C1: chunks emitted by one push of N chunks' worth of samples\<close>

text \<open>
  C1 (as amended). A push onto an empty backlog whose length is \<open>N\<close> times
  \<open>frames_per_chunk\<close> (\<open>N \<ge> 1\<close>) returns normally, puts exactly one chunk on the
  transcription queue (the first \<open>frames_per_chunk\<close> samples, scaled and resampled) and
  keeps the other \<open>(N - 1) * frames_per_chunk\<close> samples as backlog; the backlog is empty
  exactly when \<open>N = 1\<close>. The cut is an \<open>if\<close>, so it happens once per push.
\<close>

theorem c1_one_chunk_per_push:
  assumes sr: "samplerate_of s r = Some sr"
    and empty: "buffer_list_of s r = []" "buffer_size_of s r = 0"
    and len: "int (length indata) = int N * frames_per_chunk sr"
    and N: "N \<ge> 1"
  shows "fst (process_data resample indata s r) = Inr ()
       \<and> transcription_queue (snd (process_data resample indata s r)) =
           transcription_queue r @
             [(chunk_audio resample (resampler_of s r)
                 (take (nat (frames_per_chunk sr)) indata), s)]
       \<and> concat (buffer_list_of s (snd (process_data resample indata s r))) =
           drop (nat (frames_per_chunk sr)) indata
       \<and> buffer_size_of s (snd (process_data resample indata s r)) =
           (int N - 1) * frames_per_chunk sr"
proof -
  have fpc0: "0 \<le> 15 * sr"
  proof (rule ccontr)
    assume "\<not> 0 \<le> 15 * sr"
    moreover have "0 < int N" using N by simp
    ultimately have "int N * (15 * sr) < 0" by (intro mult_pos_neg) simp_all
    moreover have "0 \<le> int N * (15 * sr)"
    proof -
      have "0 \<le> int (length indata)" by simp
      then show ?thesis unfolding len frames_per_chunk_eq .
    qed
    ultimately show False by simp
  qed
  have "15 * sr \<le> int N * (15 * sr)"
    using N fpc0 by (simp add: mult_le_cancel_right1)
  then have le: "15 * sr \<le> int (length indata)"
    using len by (simp add: frames_per_chunk_eq)
  then have ge: "15 * sr \<le> buffer_size_of s r + int (length indata)"
    using empty by simp
  have "int (length (drop (nat (15 * sr)) indata)) = int (length indata) - 15 * sr"
    using le fpc0 by (simp add: nat_le_iff)
  also have "\<dots> = (int N - 1) * (15 * sr)"
    unfolding len frames_per_chunk_eq by (simp add: algebra_simps)
  finally have dl: "int (length (drop (nat (15 * sr)) indata)) = (int N - 1) * (15 * sr)" .
  show ?thesis
    using process_data_emit[OF sr ge, of resample] empty fpc0 dl
    by (simp add: frames_per_chunk_eq slice_upto_nat slice_from_nat)
qed

lemma example_recorder_fields:
  "samplerate_of s example_recorder = Some 16000"
  "buffer_list_of s example_recorder = []"
  "buffer_size_of s example_recorder = 0"
  "resampler_of s example_recorder = None"
  "transcription_queue example_recorder = []"
  by (simp_all add: example_recorder_def init_recorder_def samplerate_of_def buffer_list_of_def
        buffer_size_of_def resampler_of_def split: source.split)

text \<open>
  C1 as stated fails: at 16000 Hz a chunk is 240000 samples; one push of 480000 samples
  (\<open>N = 2\<close>) onto an empty backlog queues one chunk, not two, and leaves 240000 samples.
\<close>

theorem c1_counterexample:
  "int (length (replicate 480000 (0::sample))) = 2 * frames_per_chunk 16000
   \<and> buffer_list_of MIC example_recorder = []
   \<and> length (transcription_queue
        (snd (process_data identity_resample (replicate 480000 0) MIC example_recorder))) = 1
   \<and> length (transcription_queue
        (snd (process_data identity_resample (replicate 480000 0) MIC example_recorder))) \<noteq> 2
   \<and> buffer_size_of MIC
        (snd (process_data identity_resample (replicate 480000 0) MIC example_recorder)) = 240000
   \<and> buffer_size_of MIC
        (snd (process_data identity_resample (replicate 480000 0) MIC example_recorder)) \<noteq> 0"
proof -
  have ge: "15 * 16000 \<le> buffer_size_of MIC example_recorder + int (length (replicate 480000 (0::sample)))"
    by (simp add: example_recorder_fields)
  show ?thesis
    using process_data_emit(2,4)[OF example_recorder_fields(1) ge, of identity_resample]
    by (simp add: example_recorder_fields frames_per_chunk_eq slice_from_nat)
qed

theorem c1_one_chunk_per_push_witness:
  "fst (process_data identity_resample (replicate 240000 0) MIC example_recorder) = Inr ()
   \<and> transcription_queue
        (snd (process_data identity_resample (replicate 240000 0) MIC example_recorder)) =
       [(replicate 240000 0, MIC)]
   \<and> concat (buffer_list_of MIC
        (snd (process_data identity_resample (replicate 240000 0) MIC example_recorder))) = []
   \<and> buffer_size_of MIC
        (snd (process_data identity_resample (replicate 240000 0) MIC example_recorder)) = 0"
  using c1_one_chunk_per_push[of MIC example_recorder 16000 "replicate 240000 0" 1 identity_resample]
  by (simp add: example_recorder_fields frames_per_chunk_eq chunk_audio_def to_float_def)

subsection \<open>C3: the backlog stays below one chunk\<close>

text \<open>
  C3 (as amended). Let the stream's rate be set and the backlog be consistent and shorter
  than one chunk (as it is when the stream opens). Then every push of a sequence of pushes
  whose blocks are each at most \<open>frames_per_chunk\<close> samples long returns normally, and
  after it the retained backlog is again strictly shorter than one chunk and the stored
  size is the length of the stored samples.
\<close>

theorem c3_backlog_below_chunk:
  assumes "samplerate_of s r = Some sr"
    and "buffer_size_of s r = int (length (concat (buffer_list_of s r)))"
    and "buffer_size_of s r < frames_per_chunk sr"
    and "\<forall>b \<in> set blocks. int (length b) \<le> frames_per_chunk sr"
  shows "fst (push_all resample s blocks r) = Inr ()
       \<and> buffer_size_of s (snd (push_all resample s blocks r)) =
           int (length (concat (buffer_list_of s (snd (push_all resample s blocks r)))))
       \<and> buffer_size_of s (snd (push_all resample s blocks r)) < frames_per_chunk sr"
  using assms
proof (induction blocks arbitrary: r)
  case Nil
  then show ?case by simp
next
  case (Cons b bs)
  let ?p = "process_data resample b s r"
  have fpc: "frames_per_chunk sr = 15 * sr" by (rule frames_per_chunk_eq)
  have pos: "0 \<le> 15 * sr" using Cons.prems(2,3) by (simp add: fpc)
  have blen: "int (length b) \<le> 15 * sr" using Cons.prems(4) by (simp add: fpc)
  have step: "fst ?p = Inr ()
      \<and> buffer_size_of s (snd ?p) = int (length (concat (buffer_list_of s (snd ?p))))
      \<and> buffer_size_of s (snd ?p) < 15 * sr"
  proof (cases "15 * sr \<le> buffer_size_of s r + int (length b)")
    case True
    have "int (length (drop (nat (15 * sr)) (concat (buffer_list_of s r) @ b))) < 15 * sr"
      using Cons.prems(2,3) blen pos True by (simp add: fpc)
    then show ?thesis
      using process_data_emit(1,3,4)[OF Cons.prems(1) True, of resample] pos
      by (simp add: slice_from_nat)
  next
    case False
    then have lt: "buffer_size_of s r + int (length b) < 15 * sr" by simp
    show ?thesis
      using process_data_keep(1,3,4)[OF Cons.prems(1) lt, of resample] Cons.prems(2) lt
      by simp
  qed
  obtain r' where p: "?p = (Inr (), r')" using step by (cases ?p) auto
  have "samplerate_of s r' = Some sr"
    using process_data_samplerate[of s resample b s r] Cons.prems(1) p by simp
  moreover have "buffer_size_of s r' = int (length (concat (buffer_list_of s r')))"
    "buffer_size_of s r' < frames_per_chunk sr"
    using step p by (simp_all add: fpc)
  moreover have "\<forall>b \<in> set bs. int (length b) \<le> frames_per_chunk sr"
    using Cons.prems(4) by simp
  ultimately have "fst (push_all resample s bs r') = Inr ()
       \<and> buffer_size_of s (snd (push_all resample s bs r')) =
           int (length (concat (buffer_list_of s (snd (push_all resample s bs r')))))
       \<and> buffer_size_of s (snd (push_all resample s bs r')) < frames_per_chunk sr"
    by (rule Cons.IH)
  then show ?case using p by simp
qed

text \<open>
  C3 as stated fails for a push of three chunks' worth: 720000 samples pushed onto the
  empty loopback backlog at 16000 Hz leave 480000 samples, two whole chunks.
\<close>

theorem c3_counterexample:
  "buffer_size_of LOOPBACK example_recorder = 0
   \<and> fst (process_data identity_resample (replicate 720000 0) LOOPBACK example_recorder) = Inr ()
   \<and> buffer_size_of LOOPBACK
        (snd (process_data identity_resample (replicate 720000 0) LOOPBACK example_recorder)) = 480000
   \<and> \<not> buffer_size_of LOOPBACK
        (snd (process_data identity_resample (replicate 720000 0) LOOPBACK example_recorder))
       < frames_per_chunk 16000"
proof -
  have ge: "15 * 16000 \<le> buffer_size_of LOOPBACK example_recorder
              + int (length (replicate 720000 (0::sample)))"
    by (simp add: example_recorder_fields)
  show ?thesis
    using process_data_emit(1,4)[OF example_recorder_fields(1) ge, of identity_resample]
    by (simp add: example_recorder_fields frames_per_chunk_eq slice_from_nat)
qed

text \<open>
  C3 on two pushes at 16000 Hz, of 239000 and of 2000 samples: the second crosses the
  chunk boundary, one chunk is cut and 1000 samples are kept.
\<close>

theorem c3_backlog_below_chunk_witness:
  "fst (push_all identity_resample MIC [replicate 239000 0, replicate 2000 0] example_recorder) = Inr ()
   \<and> length (transcription_queue
        (snd (push_all identity_resample MIC [replicate 239000 0, replicate 2000 0] example_recorder))) = 1
   \<and> buffer_size_of MIC
        (snd (push_all identity_resample MIC [replicate 239000 0, replicate 2000 0] example_recorder)) = 1000
   \<and> buffer_size_of MIC
        (snd (push_all identity_resample MIC [replicate 239000 0, replicate 2000 0] example_recorder))
       < frames_per_chunk 16000"
proof -
  let ?r1 = "snd (process_data identity_resample (replicate 239000 0) MIC example_recorder)"
  let ?r2 = "snd (process_data identity_resample (replicate 2000 0) MIC ?r1)"
  have lt: "buffer_size_of MIC example_recorder + int (length (replicate 239000 (0::sample)))
              < 15 * 16000"
    by (simp add: example_recorder_fields)
  note k = process_data_keep[OF example_recorder_fields(1) lt, of identity_resample]
  have r1: "samplerate_of MIC ?r1 = Some 16000" "buffer_size_of MIC ?r1 = 239000"
    "transcription_queue ?r1 = []" "length (concat (buffer_list_of MIC ?r1)) = 239000"
    using k by (simp_all add: process_data_samplerate example_recorder_fields)
  have ge: "15 * 16000 \<le> buffer_size_of MIC ?r1 + int (length (replicate 2000 (0::sample)))"
    by (simp add: r1)
  note e = process_data_emit[OF r1(1) ge, of identity_resample]
  have r2: "fst (process_data identity_resample (replicate 2000 0) MIC ?r1) = Inr ()"
    "length (transcription_queue ?r2) = 1" "buffer_size_of MIC ?r2 = 1000"
    using e by (simp_all add: r1 slice_from_nat)
  have p: "push_all identity_resample MIC [replicate 239000 0, replicate 2000 0] example_recorder
             = (Inr (), ?r2)"
    using k(1) r2(1) by (simp add: prod_eq_iff split: prod.split sum.split)
  have "fst (push_all identity_resample MIC [replicate 239000 0, replicate 2000 0] example_recorder)
          = Inr ()
       \<and> buffer_size_of MIC
            (snd (push_all identity_resample MIC [replicate 239000 0, replicate 2000 0] example_recorder))
           = int (length (concat (buffer_list_of MIC
               (snd (push_all identity_resample MIC [replicate 239000 0, replicate 2000 0]
                  example_recorder)))))
       \<and> buffer_size_of MIC
            (snd (push_all identity_resample MIC [replicate 239000 0, replicate 2000 0] example_recorder))
           < frames_per_chunk 16000"
    by (rule c3_backlog_below_chunk)
       (simp_all add: example_recorder_fields frames_per_chunk_eq)
  then show ?thesis
    unfolding p using r2 by simp
qed

subsection \<open>C8: ending a file recording without a path or without data\<close>

text \<open>
  C8. \<open>stop_audio_file_writing\<close> returns \<open>None\<close>, without raising, when the path was
  never set (\<open>None\<close>, or the empty string, which is falsy too) or when both recording
  buffers are empty. In every call, whatever the result, the state it leaves is the
  incoming state with the writing flag cleared and both recording buffers emptied.
\<close>

theorem c8_end_without_data:
  "((mixed_audio_path r = None \<or> mixed_audio_path r = Some []
      \<or> (mic_file_buffer r = [] \<and> loopback_file_buffer r = []))
     \<longrightarrow> fst (stop_audio_file_writing resample save r) = Inr None)
   \<and> snd (stop_audio_file_writing resample save r) =
       r\<lparr>is_writing_audio := False, mic_file_buffer := [], loopback_file_buffer := []\<rparr>
   \<and> \<not> is_writing_audio (snd (stop_audio_file_writing resample save r))
   \<and> mic_file_buffer (snd (stop_audio_file_writing resample save r)) = []
   \<and> loopback_file_buffer (snd (stop_audio_file_writing resample save r)) = []"
proof -
  have s: "snd (stop_audio_file_writing resample save r) =
       r\<lparr>is_writing_audio := False, mic_file_buffer := [], loopback_file_buffer := []\<rparr>"
    by (simp add: stop_audio_file_writing_def Let_def split: option.split sum.split)
  have f: "(mixed_audio_path r = None \<or> mixed_audio_path r = Some []
      \<or> (mic_file_buffer r = [] \<and> loopback_file_buffer r = []))
     \<longrightarrow> fst (stop_audio_file_writing resample save r) = Inr None"
    by (auto simp add: stop_audio_file_writing_def Let_def split: option.split)
  show ?thesis unfolding s using f s by simp
qed

theorem c8_end_without_data_witness:
  "mixed_audio_path (init_recorder 0 1 False) = None
   \<and> fst (stop_audio_file_writing identity_resample always_saves (init_recorder 0 1 False)) = Inr None
   \<and> \<not> is_writing_audio
         (snd (stop_audio_file_writing identity_resample always_saves (init_recorder 0 1 False)))"
  using c8_end_without_data[of "init_recorder 0 1 False" identity_resample always_saves]
  by (simp add: init_recorder_def)

subsection \<open>C4: a capture session that fails to open\<close>

text \<open>
  C4 as stated fails: when the microphone opens and the loopback device does not,
  \<open>start_recording\<close> raises the device error and the microphone stream stays open in
  the session.
\<close>

theorem c4_counterexample:
  "fst (start_recording loopback_fails_driver (init_recorder 0 1 False)) = Inl PortAudioError
   \<and> stream_open (mic_stream (snd (start_recording loopback_fails_driver (init_recorder 0 1 False))))"
  by (simp add: start_recording_def loopback_fails_driver_def init_recorder_def Let_def
        stream_open_def new_stream_def)

text \<open>
  C4 (as amended). If the microphone or the loopback device cannot be opened,
  \<open>start_recording\<close> fails with that device error and no stream of the session is
  running. If it was the microphone, the session is unchanged; if the microphone opened
  and the loopback did not, the session is left holding the opened, unstarted microphone
  stream: \<open>start_recording\<close> does not close it.
\<close>

theorem c4_open_failure:
  assumes "\<not> stream_running (mic_stream r)" and "\<not> stream_running (loopback_stream r)"
    and "open_stream drv [] (mic_id r) = Inl e
         \<or> (\<exists>rate. open_stream drv [] (mic_id r) = Inr rate)
           \<and> open_stream drv [mic_id r] (loopback_id r) = Inl e"
  shows "fst (start_recording drv r) = Inl e
       \<and> \<not> stream_running (mic_stream (snd (start_recording drv r)))
       \<and> \<not> stream_running (loopback_stream (snd (start_recording drv r)))
       \<and> (open_stream drv [] (mic_id r) = Inl e \<longrightarrow> snd (start_recording drv r) = r)
       \<and> (\<forall>rate. open_stream drv [] (mic_id r) = Inr rate \<longrightarrow>
            snd (start_recording drv r) = r\<lparr>mic_stream := Some (new_stream (mic_id r) rate)\<rparr>
            \<and> stream_open (mic_stream (snd (start_recording drv r))))"
  using assms
  by (auto simp add: start_recording_def Let_def stream_running_def stream_open_def new_stream_def
        split: sum.split)

text \<open>C4 on a session whose two streams use one device, which opens once and is busy
  the second time.\<close>

theorem c4_open_failure_witness:
  "fst (start_recording busy_device_driver (init_recorder 0 0 False)) = Inl PortAudioError
   \<and> \<not> stream_running (mic_stream (snd (start_recording busy_device_driver (init_recorder 0 0 False))))
   \<and> \<not> stream_running (loopback_stream (snd (start_recording busy_device_driver (init_recorder 0 0 False))))
   \<and> stream_open (mic_stream (snd (start_recording busy_device_driver (init_recorder 0 0 False))))"
proof -
  have a: "\<not> stream_running (mic_stream (init_recorder 0 0 False))"
    "\<not> stream_running (loopback_stream (init_recorder 0 0 False))"
    by (simp_all add: init_recorder_def stream_running_def)
  have b: "open_stream busy_device_driver [] (mic_id (init_recorder 0 0 False)) = Inl PortAudioError
         \<or> (\<exists>rate. open_stream busy_device_driver [] (mic_id (init_recorder 0 0 False)) = Inr rate)
           \<and> open_stream busy_device_driver [mic_id (init_recorder 0 0 False)]
                 (loopback_id (init_recorder 0 0 False)) = Inl PortAudioError"
    by (simp add: init_recorder_def busy_device_driver_def)
  have c: "open_stream busy_device_driver [] (mic_id (init_recorder 0 0 False)) = Inr 48000"
    by (simp add: init_recorder_def busy_device_driver_def)
  show ?thesis using c4_open_failure[OF a b] c
    by (simp add: stream_open_def stream_running_def new_stream_def init_recorder_def)
qed

section \<open>Properties of the consumer\<close>

subsection \<open>Effects of the basic steps\<close>

lemma model_transcribe_simps:
  "fst (model_transcribe eng a args st) = transcribe eng (length (calls st)) (model_device st) a args"
  "calls (snd (model_transcribe eng a args st)) = calls st @ [TranscribeCall a args (model_device st)]"
  "emitted (snd (model_transcribe eng a args st)) = emitted st"
  "error_log (snd (model_transcribe eng a args st)) = error_log st"
  "model_device (snd (model_transcribe eng a args st)) = model_device st"
  "pipeline_device (snd (model_transcribe eng a args st)) = pipeline_device st"
  "text_callback (snd (model_transcribe eng a args st)) = text_callback st"
  "diarization_pipeline (snd (model_transcribe eng a args st)) = diarization_pipeline st"
  "recording_enabled (snd (model_transcribe eng a args st)) = recording_enabled st"
  "standard_args (snd (model_transcribe eng a args st)) = standard_args st"
  "tasks_done (snd (model_transcribe eng a args st)) = tasks_done st"
  by (simp_all add: model_transcribe_def standard_args_def lang_param_def)

lemma emit_text_simps:
  "calls (emit_text raw src spk st) = calls st"
  "emitted (emit_text raw src spk st) =
     emitted st @ (if py_strip raw \<noteq> [] \<and> text_callback st then [(py_strip raw, src, spk)] else [])"
  "error_log (emit_text raw src spk st) = error_log st"
  "model_device (emit_text raw src spk st) = model_device st"
  "pipeline_device (emit_text raw src spk st) = pipeline_device st"
  "text_callback (emit_text raw src spk st) = text_callback st"
  "diarization_pipeline (emit_text raw src spk st) = diarization_pipeline st"
  "recording_enabled (emit_text raw src spk st) = recording_enabled st"
  "standard_args (emit_text raw src spk st) = standard_args st"
  "tasks_done (emit_text raw src spk st) = tasks_done st"
  by (simp_all add: emit_text_def Let_def standard_args_def lang_param_def)

lemma log_error_simps:
  "calls (log_error e st) = calls st"
  "emitted (log_error e st) = emitted st"
  "error_log (log_error e st) = error_log st @ [e]"
  "model_device (log_error e st) = model_device st"
  "pipeline_device (log_error e st) = pipeline_device st"
  "text_callback (log_error e st) = text_callback st"
  "diarization_pipeline (log_error e st) = diarization_pipeline st"
  "recording_enabled (log_error e st) = recording_enabled st"
  "standard_args (log_error e st) = standard_args st"
  "tasks_done (log_error e st) = tasks_done st"
  by (simp_all add: log_error_def standard_args_def lang_param_def)

lemma task_done_simps:
  "calls (task_done st) = calls st"
  "emitted (task_done st) = emitted st"
  "error_log (task_done st) = error_log st"
  "model_device (task_done st) = model_device st"
  "pipeline_device (task_done st) = pipeline_device st"
  "text_callback (task_done st) = text_callback st"
  "diarization_pipeline (task_done st) = diarization_pipeline st"
  "recording_enabled (task_done st) = recording_enabled st"
  "tasks_done (task_done st) = Suc (tasks_done st)"
  by (simp_all add: task_done_def)

lemma run_diarization_simps:
  "fst (run_diarization eng a st) =
     diarize eng (length (calls st)) (pipeline_device st) a (diarization_params st)"
  "calls (snd (run_diarization eng a st)) = calls st @
     [DiarizeCall a WHISPER_SAMPLE_RATE (diarization_params st) (pipeline_device st)]"
  "emitted (snd (run_diarization eng a st)) = emitted st"
  "error_log (snd (run_diarization eng a st)) = error_log st"
  "model_device (snd (run_diarization eng a st)) = model_device st"
  "pipeline_device (snd (run_diarization eng a st)) = pipeline_device st"
  "text_callback (snd (run_diarization eng a st)) = text_callback st"
  "diarization_pipeline (snd (run_diarization eng a st)) = diarization_pipeline st"
  "recording_enabled (snd (run_diarization eng a st)) = recording_enabled st"
  "standard_args (snd (run_diarization eng a st)) = standard_args st"
  "tasks_done (snd (run_diarization eng a st)) = tasks_done st"
  by (simp_all add: run_diarization_def standard_args_def lang_param_def)

lemma onset_simps:
  "calls (st\<lparr>segmentation_onset := x\<rparr>) = calls st"
  "standard_args (st\<lparr>segmentation_onset := x\<rparr>) = standard_args st"
  "diarization_params (st\<lparr>segmentation_onset := x\<rparr>) = diarization_params st"
  by (simp_all add: standard_args_def lang_param_def diarization_params_def)

lemma transcribe_segment_short:
  "too_short (segment_audio eng a trk) \<Longrightarrow> transcribe_segment eng a trk st = st"
  by (simp add: transcribe_segment_def)




lemma after_diarize_simps:
  "calls (after_diarize eng a st) =
     calls st @ [DiarizeCall a WHISPER_SAMPLE_RATE (diarization_params st) (pipeline_device st)]"
  "emitted (after_diarize eng a st) = emitted st"
  "error_log (after_diarize eng a st) = error_log st"
  "model_device (after_diarize eng a st) = model_device st"
  "pipeline_device (after_diarize eng a st) = pipeline_device st"
  "text_callback (after_diarize eng a st) = text_callback st"
  "standard_args (after_diarize eng a st) = standard_args st"
  by (simp_all add: after_diarize_def run_diarization_def diarization_params_def
        standard_args_def lang_param_def)

lemma run_diarization_onset:
  "run_diarization eng a (st\<lparr>segmentation_onset := x\<rparr>) =
     (diarize eng (length (calls st)) (pipeline_device st) a (diarization_params st),
      snd (run_diarization eng a (st\<lparr>segmentation_onset := x\<rparr>)))"
  by (simp add: run_diarization_def onset_simps)

lemma diarize_body_tracks:
  assumes "diarization_pipeline st"
    and "diarize eng (length (calls st)) (pipeline_device st) a (diarization_params st) = Inr tracks"
    and "tracks \<noteq> []"
  shows "diarize_body eng a st =
           (Inr (), transcribe_segments eng a tracks (after_diarize eng a st))"
  unfolding diarize_body_def Let_def after_diarize_def
  by (subst run_diarization_onset) (simp add: assms)

lemma diarize_body_error:
  assumes "diarization_pipeline st"
    and "diarize eng (length (calls st)) (pipeline_device st) a (diarization_params st) = Inl e"
  shows "diarize_body eng a st =
           (Inl e, after_diarize eng a st)"
  unfolding diarize_body_def Let_def after_diarize_def
  by (subst run_diarization_onset) (simp add: assms)

lemma diarize_body_empty:
  assumes "diarization_pipeline st"
    and "diarize eng (length (calls st)) (pipeline_device st) a (diarization_params st) = Inr []"
  shows "diarize_body eng a st =
           (let st1 = after_diarize eng a st
            in case model_transcribe eng a (standard_args st1) st1 of
                 (Inl e, st2) \<Rightarrow> (Inl e, st2)
               | (Inr raw, st2) \<Rightarrow> (Inr (), emit_text raw LOOPBACK None st2))"
  unfolding diarize_body_def Let_def after_diarize_def
  by (subst run_diarization_onset) (simp add: assms)

lemma stable_refl: "stable st st"
  by (simp add: stable_def)

lemma stable_trans: "stable a b \<Longrightarrow> stable b c \<Longrightarrow> stable a c"
  by (simp add: stable_def)

lemma stable_steps:
  "stable st (snd (model_transcribe eng a args st))"
  "stable st (emit_text raw src spk st)"
  "stable st (log_error e st)"
  "stable st (snd (run_diarization eng a st))"
  by (simp_all add: stable_def model_transcribe_simps emit_text_simps log_error_simps
        run_diarization_simps)

lemma stable_onset: "stable st (st\<lparr>segmentation_onset := x\<rparr>)"
  by (simp add: stable_def standard_args_def lang_param_def)

lemma stable_transcribe_segment: "stable st (transcribe_segment eng a trk st)"
proof -
  let ?seg = "segment_audio eng a trk"
  let ?m1 = "model_transcribe eng ?seg (standard_args st) st"
  let ?m2 = "model_transcribe eng ?seg retry_args"
  have s1: "stable st (snd ?m1)" by (rule stable_steps)
  show ?thesis
  proof (cases "too_short ?seg")
    case True
    then show ?thesis by (simp add: transcribe_segment_def stable_refl)
  next
    case False
    show ?thesis
    proof (cases "fst ?m1")
      case (Inr raw)
      then have "transcribe_segment eng a trk st = emit_text raw LOOPBACK (Some (speaker trk)) (snd ?m1)"
        using False by (simp add: transcribe_segment_def Let_def case_prod_unfold)
      then show ?thesis using stable_trans[OF s1 stable_steps(2)] by simp
    next
      case (Inl e)
      let ?st1 = "log_error e (snd ?m1)"
      have s2: "stable st ?st1" by (rule stable_trans[OF s1 stable_steps(3)])
      have s3: "stable st (snd (?m2 ?st1))" by (rule stable_trans[OF s2 stable_steps(1)])
      show ?thesis
      proof (cases "fst (?m2 ?st1)")
        case (Inr raw)
        then have "transcribe_segment eng a trk st =
            emit_text raw LOOPBACK (Some (speaker trk)) (snd (?m2 ?st1))"
          using False Inl by (simp add: transcribe_segment_def Let_def case_prod_unfold)
        then show ?thesis using stable_trans[OF s3 stable_steps(2)] by simp
      next
        case Inl2: (Inl e2)
        then have "transcribe_segment eng a trk st = log_error e2 (snd (?m2 ?st1))"
          using False Inl by (simp add: transcribe_segment_def Let_def case_prod_unfold)
        then show ?thesis using stable_trans[OF s3 stable_steps(3)] by simp
      qed
    qed
  qed
qed

lemma stable_transcribe_segments: "stable st (transcribe_segments eng a trks st)"
proof (induction trks arbitrary: st)
  case Nil
  show ?case by (simp add: stable_refl)
next
  case (Cons trk trks)
  show ?case
    using stable_trans[OF stable_transcribe_segment Cons.IH] by simp
qed

lemma stable_diarize_body: "stable st (snd (diarize_body eng a st))"
proof (cases "diarization_pipeline st")
  case False
  then show ?thesis by (simp add: diarize_body_def stable_refl)
next
  case True
  let ?st1 = "after_diarize eng a st"
  have s1: "stable st ?st1"
    unfolding after_diarize_def by (rule stable_trans[OF stable_onset stable_steps(4)])
  show ?thesis
  proof (cases "diarize eng (length (calls st)) (pipeline_device st) a (diarization_params st)")
    case (Inl e)
    show ?thesis using diarize_body_error[OF True Inl] s1 by simp
  next
    case (Inr tracks)
    show ?thesis
    proof (cases "tracks = []")
      case False
      show ?thesis
        using diarize_body_tracks[OF True Inr False] stable_trans[OF s1 stable_transcribe_segments]
        by simp
    next
      case empty: True
      let ?m = "model_transcribe eng a (standard_args ?st1) ?st1"
      have s2: "stable st (snd ?m)" by (rule stable_trans[OF s1 stable_steps(1)])
      have b: "diarize_body eng a st =
          (case ?m of (Inl e, st2) \<Rightarrow> (Inl e, st2)
           | (Inr raw, st2) \<Rightarrow> (Inr (), emit_text raw LOOPBACK None st2))"
        using diarize_body_empty[OF True] Inr empty by (simp add: Let_def)
      show ?thesis
      proof (cases "fst ?m")
        case (Inl e)
        then show ?thesis using b s2 by (simp add: case_prod_unfold)
      next
        case (Inr raw)
        then have "snd (diarize_body eng a st) = emit_text raw LOOPBACK None (snd ?m)"
          using b by (simp add: case_prod_unfold)
        then show ?thesis using stable_trans[OF s2 stable_steps(2)] by simp
      qed
    qed
  qed
qed

lemma diarize_body_raises:
  assumes "diarize_body eng a st = (Inl e, st1)"
  shows "emitted st1 = emitted st" and "error_log st1 = error_log st"
    and "\<exists>cs. calls st1 = calls st @ cs"
proof -
  have all: "emitted st1 = emitted st \<and> error_log st1 = error_log st \<and> (\<exists>cs. calls st1 = calls st @ cs)"
  proof (cases "diarization_pipeline st")
    case False
    then show ?thesis using assms by (simp add: diarize_body_def)
  next
    case True
    let ?st1 = "after_diarize eng a st"
    have f1: "emitted ?st1 = emitted st" "error_log ?st1 = error_log st"
      "calls ?st1 = calls st @ [DiarizeCall a WHISPER_SAMPLE_RATE (diarization_params st) (pipeline_device st)]"
      by (simp_all add: after_diarize_simps)
    show ?thesis
    proof (cases "diarize eng (length (calls st)) (pipeline_device st) a (diarization_params st)")
      case (Inl e')
      show ?thesis using diarize_body_error[OF True Inl] assms f1 by auto
    next
      case (Inr tracks)
      show ?thesis
      proof (cases "tracks = []")
        case False
        show ?thesis using diarize_body_tracks[OF True Inr False] assms by simp
      next
        case empty: True
        let ?m = "model_transcribe eng a (standard_args ?st1) ?st1"
        have b: "diarize_body eng a st =
            (case ?m of (Inl e, st2) \<Rightarrow> (Inl e, st2)
             | (Inr raw, st2) \<Rightarrow> (Inr (), emit_text raw LOOPBACK None st2))"
          using diarize_body_empty[OF True] Inr empty by (simp add: Let_def)
        have "st1 = snd ?m" using b assms by (cases "fst ?m") (simp_all add: case_prod_unfold)
        then show ?thesis using f1 by (simp add: model_transcribe_simps)
      qed
    qed
  qed
  show "emitted st1 = emitted st" "error_log st1 = error_log st" "\<exists>cs. calls st1 = calls st @ cs"
    using all by simp_all
qed







lemma move_pipeline_to_cpu_kept:
  "devices_kept st (snd (move_pipeline_to_cpu eng st))"
  "diarization_pipeline (snd (move_pipeline_to_cpu eng st)) = diarization_pipeline st"
  "text_callback (snd (move_pipeline_to_cpu eng st)) = text_callback st"
  "standard_args (snd (move_pipeline_to_cpu eng st)) = standard_args st"
  "calls (snd (move_pipeline_to_cpu eng st)) = calls st"
  "emitted (snd (move_pipeline_to_cpu eng st)) = emitted st"
  "error_log (snd (move_pipeline_to_cpu eng st)) = error_log st"
  by (simp_all add: move_pipeline_to_cpu_def devices_kept_def standard_args_def lang_param_def
        split: option.split)


lemma move_models_to_cpu_ok:
  assumes "model_to_cpu eng = None" "pipeline_to_cpu eng = None"
  shows "fst (move_models_to_cpu eng st) = Inr ()"
    and "model_device (snd (move_models_to_cpu eng st)) =
           (if model_device st = Some CUDA then Some CPU else model_device st)"
    and "pipeline_device (snd (move_models_to_cpu eng st)) =
           (if diarization_pipeline st \<and> pipeline_device st = Some CUDA then Some CPU
            else pipeline_device st)"
  using assms by (simp_all add: move_models_to_cpu_def move_pipeline_to_cpu_def)






lemma diarize_body_raises_stable:
  assumes "diarize_body eng a st = (Inl e, st1)"
  shows "model_device st1 = model_device st" "pipeline_device st1 = pipeline_device st"
    "text_callback st1 = text_callback st" "standard_args st1 = standard_args st"
    "diarization_pipeline st1 = diarization_pipeline st" "tasks_done st1 = tasks_done st"
  using stable_diarize_body[of st eng a] assms by (simp_all add: stable_def)

lemma generic_handler_result:
  "calls (snd (generic_handler eng a e st)) =
     calls st @ [TranscribeCall a (standard_args st) (model_device st)]"
  "emitted (snd (generic_handler eng a e st)) =
     emitted st @ (case transcribe eng (length (calls st)) (model_device st) a (standard_args st) of
                     Inr raw \<Rightarrow> (if py_strip raw \<noteq> [] \<and> text_callback st
                                 then [(py_strip raw, LOOPBACK, None)] else [])
                   | Inl e' \<Rightarrow> [])"
  "error_log (snd (generic_handler eng a e st)) = error_log st @ [e]"
  "tasks_done (snd (generic_handler eng a e st)) = tasks_done st"
  "fst (generic_handler eng a e st) =
     (case transcribe eng (length (calls st)) (model_device st) a (standard_args st) of
        Inr raw \<Rightarrow> Inr () | Inl e' \<Rightarrow> Inl e')"
  by (simp_all add: generic_handler_def Let_def model_transcribe_def log_error_def emit_text_def
        standard_args_def lang_param_def split: sum.split)






lemma py_strip_hello: "py_strip padded_hello = hello" "hello \<noteq> []"
  by (simp_all add: py_strip_def is_space_def padded_hello_def hello_def)

lemma rms_examples:
  "np_rms steady_engines silent_chunk = Some 0" "np_rms steady_engines loud_chunk = Some 1"
  "np_rms oom_on_cuda_engines loud_chunk = Some 1"
  by (simp_all add: steady_engines_def oom_on_cuda_engines_def sample_rms_def
        silent_chunk_def loud_chunk_def)


lemma cpu_transcriber_fields:
  "recording_enabled cpu_transcriber" "diarization_pipeline cpu_transcriber"
  "text_callback cpu_transcriber"
  "model_device cpu_transcriber = Some CPU" "pipeline_device cpu_transcriber = Some CPU"
  "calls cpu_transcriber = []" "emitted cpu_transcriber = []" "error_log cpu_transcriber = []"
  "tasks_done cpu_transcriber = 0" "diarization_params cpu_transcriber = []"
  "standard_args cpu_transcriber =
     \<lparr> language = Some ''de'', fp16 = False, logprob_threshold = None,
       no_speech_threshold = None, task = None \<rparr>"
  by (simp_all add: cpu_transcriber_def init_transcriber_def diarization_params_def
        standard_args_def lang_param_def)


subsection \<open>C7: the silence gate of the microphone\<close>



subsection \<open>C9: the language passed to the engine\<close>

text \<open>
  C9. Whatever language is configured, a MIC chunk that passes the gate is transcribed
  by one call with \<open>language = "en"\<close> (and none is made when the gate drops it); the
  standard LOOPBACK path passes the configured language, with \<open>'auto'\<close> turned into
  \<open>None\<close>, the engine's auto-detection.
\<close>

theorem c9_mic_language_fixed:
  "calls (snd (transcribe_standard eng a MIC (st\<lparr>transcription_language := lang\<rparr>))) =
     calls st @
       (if nan_less (np_rms eng a) 0.001 then []
        else [TranscribeCall a
                \<lparr> language = Some ''en'', fp16 = False, logprob_threshold = Some (- 0.8),
                  no_speech_threshold = Some 0.7, task = None \<rparr>
                (model_device st)])
   \<and> calls (snd (transcribe_standard eng a LOOPBACK (st\<lparr>transcription_language := lang\<rparr>))) =
     calls st @
       [TranscribeCall a
          \<lparr> language = (if lang = ''auto'' then None else Some lang), fp16 = False,
            logprob_threshold = None, no_speech_threshold = None, task = None \<rparr>
          (model_device st)]"
proof -
  let ?st = "st\<lparr>transcription_language := lang\<rparr>"
  have f: "calls ?st = calls st" "model_device ?st = model_device st" by simp_all
  have sa: "standard_args ?st = \<lparr> language = (if lang = ''auto'' then None else Some lang), fp16 = False,
            logprob_threshold = None, no_speech_threshold = None, task = None \<rparr>"
    by (simp add: standard_args_def lang_param_def)
  have mic: "calls (snd (transcribe_standard eng a MIC ?st)) =
     calls ?st @ (if nan_less (np_rms eng a) 0.001 then [] else [TranscribeCall a mic_args (model_device ?st)])"
  proof (cases "model_transcribe eng a mic_args ?st")
    case (Pair res st1)
    then have "calls st1 = calls ?st @ [TranscribeCall a mic_args (model_device ?st)]"
      using model_transcribe_simps(2)[of eng a mic_args ?st] by simp
    then show ?thesis using Pair
      by (cases res) (simp_all add: transcribe_standard_def emit_text_simps)
  qed
  have lb: "calls (snd (transcribe_standard eng a LOOPBACK ?st)) =
     calls ?st @ [TranscribeCall a (standard_args ?st) (model_device ?st)]"
  proof (cases "model_transcribe eng a (standard_args ?st) ?st")
    case (Pair res st1)
    then have "calls st1 = calls ?st @ [TranscribeCall a (standard_args ?st) (model_device ?st)]"
      using model_transcribe_simps(2)[of eng a "standard_args ?st" ?st] by simp
    then show ?thesis using Pair
      by (cases res) (simp_all add: transcribe_standard_def emit_text_simps)
  qed
  show ?thesis
    using mic lb unfolding f sa by (simp add: mic_args_def)
qed

text \<open>C9 with the configured language \<open>'auto'\<close>.\<close>

theorem c9_mic_language_fixed_witness:
  "calls (snd (transcribe_standard steady_engines loud_chunk MIC
          (cpu_transcriber\<lparr>transcription_language := ''auto''\<rparr>))) =
     [TranscribeCall loud_chunk
        \<lparr> language = Some ''en'', fp16 = False, logprob_threshold = Some (- 0.8),
          no_speech_threshold = Some 0.7, task = None \<rparr> (Some CPU)]
   \<and> calls (snd (transcribe_standard steady_engines loud_chunk LOOPBACK
          (cpu_transcriber\<lparr>transcription_language := ''auto''\<rparr>))) =
     [TranscribeCall loud_chunk
        \<lparr> language = None, fp16 = False, logprob_threshold = None,
          no_speech_threshold = None, task = None \<rparr> (Some CPU)]"
  using c9_mic_language_fixed[where eng = steady_engines and a = loud_chunk
      and st = cpu_transcriber and lang = "''auto''"] rms_examples
  by (simp add: cpu_transcriber_fields nan_less_def)

subsection \<open>C6: a chunk with zero speaker segments\<close>

text \<open>
  C6 as stated fails when the whole-chunk call of the zero-segment branch raises: the
  handler for other exceptions then transcribes the whole chunk once more, so two
  whole-chunk calls are made for the chunk.
\<close>

theorem c6_counterexample:
  "diarize flaky_engines (length (calls cpu_transcriber)) (pipeline_device cpu_transcriber)
     loud_chunk (diarization_params cpu_transcriber) = Inr []
   \<and> calls (snd (process_chunk flaky_engines loud_chunk LOOPBACK cpu_transcriber)) =
       [DiarizeCall loud_chunk WHISPER_SAMPLE_RATE [] (Some CPU),
        TranscribeCall loud_chunk (standard_args cpu_transcriber) (Some CPU),
        TranscribeCall loud_chunk (standard_args cpu_transcriber) (Some CPU)]"
proof -
  let ?st1 = "after_diarize flaky_engines loud_chunk cpu_transcriber"
  let ?m = "model_transcribe flaky_engines loud_chunk (standard_args ?st1) ?st1"
  have z: "diarize flaky_engines (length (calls cpu_transcriber)) (pipeline_device cpu_transcriber)
     loud_chunk (diarization_params cpu_transcriber) = Inr []"
    by (simp add: flaky_engines_def)
  have m: "fst ?m = Inl RuntimeError"
    by (simp add: model_transcribe_simps after_diarize_simps cpu_transcriber_fields flaky_engines_def)
  have b: "diarize_body flaky_engines loud_chunk cpu_transcriber = (Inl RuntimeError, snd ?m)"
    using diarize_body_empty[OF cpu_transcriber_fields(2) z] m
    by (simp add: Let_def case_prod_unfold)
  have "process_chunk flaky_engines loud_chunk LOOPBACK cpu_transcriber =
      generic_handler flaky_engines loud_chunk RuntimeError (snd ?m)"
    using b by (simp add: process_chunk_def diarize_and_transcribe_def cpu_transcriber_fields)
  then show ?thesis
    using z
    by (simp add: generic_handler_result model_transcribe_simps after_diarize_simps
          cpu_transcriber_fields)
qed

text \<open>
  C6 (as amended). For a loopback chunk on which the diarizer returns zero segments and
  whose whole-chunk transcription call returns normally, the consumer makes exactly that
  one transcription call, on the entire chunk with the configured language, and invokes
  the text callback with speaker \<open>None\<close> exactly when the stripped text is non-empty
  (and a callback is set).
\<close>

theorem c6_zero_segments:
  assumes pipe: "diarization_pipeline st"
    and zero: "diarize eng (length (calls st)) (pipeline_device st) a (diarization_params st) = Inr []"
    and ok: "transcribe eng (Suc (length (calls st))) (model_device st) a (standard_args st) = Inr raw"
  shows "fst (process_chunk eng a LOOPBACK st) = Inr ()
       \<and> calls (snd (process_chunk eng a LOOPBACK st)) =
           calls st @ [DiarizeCall a WHISPER_SAMPLE_RATE (diarization_params st) (pipeline_device st),
                       TranscribeCall a (standard_args st) (model_device st)]
       \<and> emitted (snd (process_chunk eng a LOOPBACK st)) =
           emitted st @ (if py_strip raw \<noteq> [] \<and> text_callback st
                         then [(py_strip raw, LOOPBACK, None)] else [])"
proof -
  let ?st1 = "after_diarize eng a st"
  let ?m = "model_transcribe eng a (standard_args ?st1) ?st1"
  have m: "?m = (Inr raw, snd ?m)"
    using ok by (simp add: prod_eq_iff model_transcribe_simps after_diarize_simps)
  have "diarize_body eng a st = (Inr (), emit_text raw LOOPBACK None (snd ?m))"
    using diarize_body_empty[OF pipe zero] unfolding Let_def
    by (subst (asm) m) simp
  then have "process_chunk eng a LOOPBACK st = (Inr (), emit_text raw LOOPBACK None (snd ?m))"
    using pipe by (simp add: process_chunk_def diarize_and_transcribe_def)
  then show ?thesis
    by (simp add: emit_text_simps model_transcribe_simps after_diarize_simps)
qed

text \<open>C6 with engines that always answer.\<close>

theorem c6_zero_segments_witness:
  "calls (snd (process_chunk steady_engines loud_chunk LOOPBACK cpu_transcriber)) =
     [DiarizeCall loud_chunk WHISPER_SAMPLE_RATE [] (Some CPU),
      TranscribeCall loud_chunk (standard_args cpu_transcriber) (Some CPU)]
   \<and> emitted (snd (process_chunk steady_engines loud_chunk LOOPBACK cpu_transcriber)) =
     [(hello, LOOPBACK, None)]"
proof -
  have z: "diarize steady_engines (length (calls cpu_transcriber)) (pipeline_device cpu_transcriber)
     loud_chunk (diarization_params cpu_transcriber) = Inr []"
    by (simp add: steady_engines_def)
  have t: "transcribe steady_engines (Suc (length (calls cpu_transcriber)))
     (model_device cpu_transcriber) loud_chunk (standard_args cpu_transcriber) = Inr padded_hello"
    by (simp add: steady_engines_def)
  show ?thesis
    using c6_zero_segments[OF cpu_transcriber_fields(2) z t]
    by (simp add: cpu_transcriber_fields py_strip_hello)
qed

subsection \<open>C5: a speaker segment whose transcription raises\<close>



subsection \<open>C10: the diarization sub-pipeline raises another exception\<close>

text \<open>
  C10. If the \<open>try\<close> block of \<open>diarize_and_transcribe\<close> raises an exception other than
  \<open>OutOfMemoryError\<close> on a loopback chunk, the iteration of the consumer loop makes
  exactly one further engine call, a transcription of the whole chunk with the configured
  language; its stripped text is emitted with speaker \<open>None\<close> exactly when it is
  non-empty (and a callback is set); the exception is logged, as is one raised by the
  fallback call itself; and the iteration completes, so the loop goes on with the next
  items.
\<close>

theorem c10_diarization_error_fallback:
  assumes rec: "recording_enabled st" and pipe: "diarization_pipeline st"
    and body: "diarize_body eng a st = (Inl e, st1)"
    and other: "e \<noteq> OutOfMemoryError"
  shows "calls (run_iteration eng (Some (a, LOOPBACK)) st) =
           calls st1 @ [TranscribeCall a (standard_args st) (model_device st)]
       \<and> emitted (run_iteration eng (Some (a, LOOPBACK)) st) =
           emitted st @
             (case transcribe eng (length (calls st1)) (model_device st) a (standard_args st) of
                Inr raw \<Rightarrow> (if py_strip raw \<noteq> [] \<and> text_callback st
                            then [(py_strip raw, LOOPBACK, None)] else [])
              | Inl e' \<Rightarrow> [])
       \<and> error_log (run_iteration eng (Some (a, LOOPBACK)) st) =
           error_log st @ [e] @
             (case transcribe eng (length (calls st1)) (model_device st) a (standard_args st) of
                Inr raw \<Rightarrow> [] | Inl e' \<Rightarrow> [e'])
       \<and> tasks_done (run_iteration eng (Some (a, LOOPBACK)) st) = Suc (tasks_done st)
       \<and> run eng (Some (a, LOOPBACK) # items) st =
           run eng items (run_iteration eng (Some (a, LOOPBACK)) st)"
proof -
  let ?g = "generic_handler eng a e st1"
  note s1 = diarize_body_raises_stable[OF body] diarize_body_raises(1,2)[OF body]
  have pc: "process_chunk eng a LOOPBACK st = ?g"
    using pipe body other by (simp add: process_chunk_def diarize_and_transcribe_def)
  have it: "run_iteration eng (Some (a, LOOPBACK)) st =
      (case fst ?g of Inr u \<Rightarrow> task_done (snd ?g) | Inl e' \<Rightarrow> task_done (log_error e' (snd ?g)))"
    using rec pc by (simp add: run_iteration_def case_prod_unfold split: sum.split)
  note g = generic_handler_result[of eng a e st1, unfolded s1]
  show ?thesis
  proof (cases "transcribe eng (length (calls st1)) (model_device st) a (standard_args st)")
    case (Inl e')
    then have "run_iteration eng (Some (a, LOOPBACK)) st = task_done (log_error e' (snd ?g))"
      using it g(5) by simp
    then show ?thesis using g(1,2,3,4) Inl
      by (simp add: task_done_simps log_error_simps)
  next
    case (Inr raw)
    then have "run_iteration eng (Some (a, LOOPBACK)) st = task_done (snd ?g)"
      using it g(5) by simp
    then show ?thesis using g(1,2,3,4) Inr
      by (simp add: task_done_simps)
  qed
qed

text \<open>C10 with a diarizer that raises \<open>RuntimeError\<close>.\<close>

theorem c10_diarization_error_fallback_witness:
  "diarize_body broken_diarizer_engines loud_chunk cpu_transcriber =
     (Inl RuntimeError, after_diarize broken_diarizer_engines loud_chunk cpu_transcriber)
   \<and> calls (run_iteration broken_diarizer_engines (Some (loud_chunk, LOOPBACK)) cpu_transcriber) =
     [DiarizeCall loud_chunk WHISPER_SAMPLE_RATE [] (Some CPU),
      TranscribeCall loud_chunk (standard_args cpu_transcriber) (Some CPU)]
   \<and> emitted (run_iteration broken_diarizer_engines (Some (loud_chunk, LOOPBACK)) cpu_transcriber) =
     [(hello, LOOPBACK, None)]
   \<and> error_log (run_iteration broken_diarizer_engines (Some (loud_chunk, LOOPBACK)) cpu_transcriber) =
     [RuntimeError]"
proof -
  have d: "diarize broken_diarizer_engines (length (calls cpu_transcriber))
             (pipeline_device cpu_transcriber) loud_chunk (diarization_params cpu_transcriber)
           = Inl RuntimeError"
    by (simp add: broken_diarizer_engines_def)
  have b: "diarize_body broken_diarizer_engines loud_chunk cpu_transcriber =
     (Inl RuntimeError, after_diarize broken_diarizer_engines loud_chunk cpu_transcriber)"
    by (rule diarize_body_error[OF cpu_transcriber_fields(2) d])
  have ne: "RuntimeError \<noteq> OutOfMemoryError" by simp
  have t: "transcribe broken_diarizer_engines n dev a args = Inr padded_hello" for n dev a args
    by (simp add: broken_diarizer_engines_def)
  show ?thesis
    using c10_diarization_error_fallback[OF cpu_transcriber_fields(1,2) b ne, of "[]"] b
    by (simp add: cpu_transcriber_fields after_diarize_simps t py_strip_hello)
qed

subsection \<open>C2: accelerator memory exhaustion\<close>




end
